theory Spec2Isabelle
  imports Complex_Main
begin

section \<open>Python string operations used by the interview orchestrator\<close>

text \<open>
  Python strings are modelled as \<^typ>\<open>string\<close>; a \<^typ>\<open>char\<close> stands for a code point
  below 256. \<open>py_isspace\<close> lists the code points below 256 that \<open>str.strip()\<close> removes.
\<close>

definition py_isspace :: "char \<Rightarrow> bool" where
  "py_isspace c = (c \<in> set [CHR 0x09, CHR 0x0A, CHR 0x0B, CHR 0x0C, CHR 0x0D,
                             CHR 0x1C, CHR 0x1D, CHR 0x1E, CHR 0x1F, CHR 0x20,
                             CHR 0x85, CHR 0xA0])"

definition py_strip :: "string \<Rightarrow> string" where
  "py_strip s = rev (dropWhile py_isspace (rev (dropWhile py_isspace s)))"

text \<open>\<open>s.startswith(p)\<close>.\<close>

definition startswith :: "string \<Rightarrow> string \<Rightarrow> bool" where
  "startswith s p = (take (length p) s = p)"

text \<open>\<open>sub in s\<close>: \<open>sub\<close> occurs in \<open>s\<close> as a contiguous substring.\<close>

fun py_in :: "string \<Rightarrow> string \<Rightarrow> bool" where
  "py_in sub [] = (sub = [])"
| "py_in sub (c # cs) = (startswith (c # cs) sub \<or> py_in sub cs)"

text \<open>
  \<open>s.replace(old, new)\<close>: the non-overlapping occurrences of \<open>old\<close> are replaced from
  left to right in one pass; the result is not scanned again.
\<close>

fun py_replace :: "string \<Rightarrow> string \<Rightarrow> string \<Rightarrow> string" where
  "py_replace old new [] = (if old = [] then new else [])"
| "py_replace old new (c # cs) =
     (if old = [] then new @ c # py_replace old new cs
      else if startswith (c # cs) old then new @ py_replace old new (drop (length old - 1) cs)
      else c # py_replace old new cs)"

section \<open>Shared constants of \<open>Part3/interviewer.py\<close>\<close>

definition SENTINEL_END_PHRASE :: string where
  "SENTINEL_END_PHRASE = ''<<END_INTERVIEW>>''"

definition TERMINATION_TAG :: string where
  "TERMINATION_TAG = ''PROTOCOL_TERMINATE_UNPROFESSIONAL''"

definition WARNING_TAG :: string where
  "WARNING_TAG = ''PROTOCOL_WARNING_UNPROFESSIONAL''"

definition PIVOT_TAG :: string where
  "PIVOT_TAG = ''PROTOCOL_PIVOT_TO_NEW_TOPIC''"

definition SOFT_CLOSE_TAG :: string where
  "SOFT_CLOSE_TAG = ''PROTOCOL_INITIATE_SOFT_CLOSE''"

definition MAX_WARNINGS :: int where
  "MAX_WARNINGS = 1"

definition MAX_PRIMARY_QUESTIONS :: int where
  "MAX_PRIMARY_QUESTIONS = 5"

definition MAX_ELABORATIONS :: int where
  "MAX_ELABORATIONS = 1"

definition REPETITION_PHRASES :: "string list" where
  "REPETITION_PHRASES =
     [''To ensure clarity, I will repeat the question:'',
      ''Let me clarify that point for you:'',
      ''I'' @ CHR 0x27 # ''m happy to rephrase the question:'']"

section \<open>Messages, the Text Generation collaborator and the session state\<close>

text \<open>
  The prompts handed to the model are fixed texts of the source with, at most, one number
  interpolated; each is named by a constructor that carries that number. The three pacing
  guides of \<open>process_turn\<close> are \<open>FIRST_TOPIC\<close>, \<open>ASK_FOLLOW_UP\<close> (with
  \<open>elaboration_count + 1\<close>) and \<open>PIVOT_NEW_TOPIC\<close> (with \<open>primary_question_count + 1\<close>);
  \<open>RE_ASK\<close> is \<open>re_ask_message\<close>, \<open>SOFT_CLOSE_PROMPT\<close> is \<open>soft_close_prompt\<close> and
  \<open>FINAL_SIGNAL_PROMPT\<close> is \<open>final_signal_prompt\<close>.
\<close>

datatype prompt =
    FIRST_TOPIC
  | ASK_FOLLOW_UP int
  | PIVOT_NEW_TOPIC int
  | RE_ASK
  | SOFT_CLOSE_PROMPT
  | FINAL_SIGNAL_PROMPT

text \<open>
  \<open>SystemMessage\<close> carries the job description, the resume and the job level that
  \<open>_get_system_instruction\<close> interpolates into its template; \<open>HumanPrompt\<close> is the
  \<open>HumanMessage\<close> whose content is a prompt of the orchestrator.
\<close>

datatype message =
    SystemMessage string string string
  | AIMessage string
  | HumanMessage string
  | HumanPrompt prompt

text \<open>
  One call of \<open>self.llm.invoke(messages)\<close> either returns a response with a content or
  raises an exception \<open>e\<close>, of which the code uses \<open>str(e)\<close> only.
\<close>

datatype llm_result = Content string | Raises string

type_synonym llm = "message list \<Rightarrow> llm_result"

text \<open>The \<open>"type"\<close> key of a transcript entry takes the three values \<open>human\<close>, \<open>ai\<close> and \<open>PROTOCOL\<close>.\<close>

datatype entry_type = T_human | T_ai | T_PROTOCOL

type_synonym entry = "entry_type \<times> string"

record InterviewerBot =
  job_description :: string
  resume_content :: string
  job_level :: string
  candidate_name :: string
  warning_count :: int
  primary_question_count :: int
  elaboration_count :: int
  is_finished :: bool
  is_in_soft_close :: bool
  transcript_history :: "entry list"
  memory :: "message list"

text \<open>\<open>InterviewerBot.__init__\<close>.\<close>

definition new_bot :: "string \<Rightarrow> string \<Rightarrow> string \<Rightarrow> string \<Rightarrow> InterviewerBot" where
  "new_bot job_desc_str resume_content_str level name =
     \<lparr> job_description = job_desc_str, resume_content = resume_content_str,
       job_level = level, candidate_name = name,
       warning_count = 0, primary_question_count = 0, elaboration_count = 0,
       is_finished = False, is_in_soft_close = False,
       transcript_history = [], memory = [] \<rparr>"

definition initial_greeting :: "string \<Rightarrow> string" where
  "initial_greeting name =
     ''Hello '' @ name @ '', thank you for joining me today. We have a short time, so let''
     @ CHR 0x27 # ''s jump right into the technical discussion. How are you doing?''"

definition init_session :: "InterviewerBot \<Rightarrow> string \<times> InterviewerBot" where
  "init_session self =
     (let g = initial_greeting (candidate_name self) in
      (g, self\<lparr> transcript_history := transcript_history self @ [(T_ai, g)],
                memory := memory self @ [AIMessage g] \<rparr>))"

definition llm_error_message :: "string \<Rightarrow> string" where
  "llm_error_message e = ''[LLM_ERROR] The AI model failed to respond: '' @ e"

text \<open>
  \<open>_invoke_llm_for_response\<close>: the exception of the call is caught here and turned into
  the text that is returned.
\<close>

definition invoke_llm_for_response :: "llm \<Rightarrow> InterviewerBot \<Rightarrow> prompt \<Rightarrow> string" where
  "invoke_llm_for_response llm self action_guide =
     (let messages = SystemMessage (job_description self) (resume_content self) (job_level self)
                       # memory self @ [HumanPrompt action_guide]
      in case llm messages of
           Content c \<Rightarrow> py_strip c
         | Raises e \<Rightarrow> llm_error_message e)"

definition termination_message :: string where
  "termination_message =
     ''I appreciate your time, but given the lack of professional engagement, I must conclude this interview now.''"

definition warning_message :: string where
  "warning_message =
     ''I noticed your last response was unprofessional. Please maintain a professional demeanor. I''
     @ CHR 0x27 # ''ll re-ask the question.''"

text \<open>
  Lines 170 to 181 of \<open>_handle_protocol_response\<close>, which run on the text of the first
  call when it is not the warning tag, and on the text of the second call after a warning.
\<close>

definition handle_sentinel_or_append :: "InterviewerBot \<Rightarrow> string \<Rightarrow> string \<times> InterviewerBot" where
  "handle_sentinel_or_append self bot_text =
     (if py_in SENTINEL_END_PHRASE bot_text then
        (let final_message = py_strip (py_replace SENTINEL_END_PHRASE [] bot_text) in
         (final_message,
          self\<lparr> is_finished := True,
                transcript_history := transcript_history self
                   @ [(T_PROTOCOL, SENTINEL_END_PHRASE), (T_ai, final_message)] \<rparr>))
      else
        (bot_text,
         self\<lparr> transcript_history := transcript_history self @ [(T_ai, bot_text)],
               memory := memory self @ [AIMessage bot_text] \<rparr>))"

definition handle_protocol_response :: "llm \<Rightarrow> InterviewerBot \<Rightarrow> string \<Rightarrow> string \<times> InterviewerBot" where
  "handle_protocol_response llm self bot_text =
     (if bot_text = WARNING_TAG then
        (let self1 = self\<lparr> warning_count := warning_count self + 1,
                            transcript_history := transcript_history self @ [(T_PROTOCOL, WARNING_TAG)] \<rparr>
         in if warning_count self1 > MAX_WARNINGS then
              (termination_message,
               self1\<lparr> is_finished := True,
                      transcript_history := transcript_history self1
                         @ [(T_PROTOCOL, TERMINATION_TAG), (T_ai, termination_message)] \<rparr>)
            else
              (let self2 = self1\<lparr> transcript_history := transcript_history self1 @ [(T_ai, warning_message)],
                                   memory := memory self1 @ [AIMessage warning_message] \<rparr>
               in handle_sentinel_or_append self2 (invoke_llm_for_response llm self2 RE_ASK)))
      else handle_sentinel_or_append self bot_text)"

definition initiate_soft_close :: "llm \<Rightarrow> InterviewerBot \<Rightarrow> (string \<times> bool) \<times> InterviewerBot" where
  "initiate_soft_close llm self =
     (let self1 = self\<lparr> is_in_soft_close := True \<rparr>;
          bot_text = invoke_llm_for_response llm self1 SOFT_CLOSE_PROMPT
      in ((bot_text, False),
          self1\<lparr> transcript_history := transcript_history self1
                    @ [(T_PROTOCOL, SOFT_CLOSE_TAG), (T_ai, bot_text)],
                 memory := memory self1 @ [AIMessage bot_text] \<rparr>))"

definition continue_soft_close :: "llm \<Rightarrow> InterviewerBot \<Rightarrow> string \<Rightarrow> (string \<times> bool) \<times> InterviewerBot" where
  "continue_soft_close llm self candidate_reply =
     (let bot_text = invoke_llm_for_response llm self FINAL_SIGNAL_PROMPT in
      if py_in SENTINEL_END_PHRASE bot_text then
        (let final_message = py_strip (py_replace SENTINEL_END_PHRASE [] bot_text) in
         ((final_message, True),
          self\<lparr> is_finished := True,
                transcript_history := transcript_history self
                   @ [(T_PROTOCOL, SENTINEL_END_PHRASE), (T_ai, final_message)] \<rparr>))
      else
        ((bot_text, False),
         self\<lparr> transcript_history := transcript_history self @ [(T_ai, bot_text)],
               memory := memory self @ [AIMessage bot_text] \<rparr>))"

text \<open>\<open>any(final_bot_text.startswith(phrase) for phrase in REPETITION_PHRASES)\<close>.\<close>

definition is_repetition :: "string \<Rightarrow> bool" where
  "is_repetition final_bot_text = list_ex (startswith final_bot_text) REPETITION_PHRASES"

definition process_turn :: "llm \<Rightarrow> InterviewerBot \<Rightarrow> string \<Rightarrow> (string \<times> bool) \<times> InterviewerBot" where
  "process_turn llm self candidate_reply =
     (let self1 = self\<lparr> transcript_history := transcript_history self @ [(T_human, candidate_reply)],
                         memory := memory self @ [HumanMessage candidate_reply] \<rparr>
      in if is_in_soft_close self1 then continue_soft_close llm self1 candidate_reply
         else if primary_question_count self1 \<ge> MAX_PRIMARY_QUESTIONS then initiate_soft_close llm self1
         else
           (let action_guide =
                  (if primary_question_count self1 = 0 then FIRST_TOPIC
                   else if elaboration_count self1 < MAX_ELABORATIONS
                     then ASK_FOLLOW_UP (elaboration_count self1 + 1)
                   else PIVOT_NEW_TOPIC (primary_question_count self1 + 1));
                bot_text = invoke_llm_for_response llm self1 action_guide;
                (final_bot_text, self2) = handle_protocol_response llm self1 bot_text
            in if is_finished self2 then ((final_bot_text, True), self2)
               else if is_repetition final_bot_text then ((final_bot_text, is_finished self2), self2)
               else if primary_question_count self2 = 0 then
                 ((final_bot_text, is_finished self2), self2\<lparr> primary_question_count := 1 \<rparr>)
               else if elaboration_count self2 \<ge> MAX_ELABORATIONS then
                 ((final_bot_text, is_finished self2),
                  self2\<lparr> primary_question_count := primary_question_count self2 + 1,
                         elaboration_count := 0,
                         transcript_history := transcript_history self2 @ [(T_PROTOCOL, PIVOT_TAG)] \<rparr>)
               else
                 ((final_bot_text, is_finished self2),
                  self2\<lparr> elaboration_count := elaboration_count self2 + 1 \<rparr>)))"

text \<open>
  \<open>get_context_for_grading\<close>. \<open>now\<close> is the value of \<open>time.time()\<close>. The method also tries
  to write the context to \<open>interview_transcript.json\<close>; a failure of that write is caught
  and printed, so the write changes neither the value returned nor the session.
\<close>

record grading_context =
  ctx_timestamp :: real
  ctx_job_level :: string
  ctx_candidate_name :: string
  ctx_job_description :: string
  ctx_resume_content :: string
  ctx_transcript :: "entry list"

definition get_context_for_grading :: "real \<Rightarrow> InterviewerBot \<Rightarrow> grading_context" where
  "get_context_for_grading now self =
     \<lparr> ctx_timestamp = now,
       ctx_job_level = job_level self,
       ctx_candidate_name = candidate_name self,
       ctx_job_description = job_description self,
       ctx_resume_content = resume_content self,
       ctx_transcript = transcript_history self \<rparr>"

section \<open>The public adapter and the session transport\<close>

text \<open>
  \<open>chat_interview_logic\<close> calls \<open>interviewer_instance.process_turn\<close> inside
  \<open>try ... except Exception\<close>. The method called is a parameter here: a turn procedure
  returns \<open>Inr\<close> of the pair it returns, or \<open>Inl e\<close> when it raises an exception with
  \<open>str(e) = e\<close>, together with the session as it has been mutated up to that point.
\<close>

type_synonym turn_proc = "InterviewerBot \<Rightarrow> string \<Rightarrow> (string + string \<times> bool) \<times> InterviewerBot"

definition process_turn_proc :: "llm \<Rightarrow> turn_proc" where
  "process_turn_proc llm self candidate_reply =
     (case process_turn llm self candidate_reply of (res, self') \<Rightarrow> (Inr res, self'))"

definition chat_interview_logic ::
  "turn_proc \<Rightarrow> real \<Rightarrow> InterviewerBot \<Rightarrow> string
     \<Rightarrow> (string \<times> bool \<times> grading_context option) \<times> InterviewerBot" where
  "chat_interview_logic turn now interviewer_instance candidate_reply =
     (case turn interviewer_instance candidate_reply of (outcome, inst) \<Rightarrow>
        (let (ai_response, finished) =
               (case outcome of
                  Inr (r, f) \<Rightarrow> (r, f)
                | Inl e \<Rightarrow> (''Internal chat processing failure: '' @ e, True));
             final_context = (if finished then Some (get_context_for_grading now inst) else None)
         in ((ai_response, finished, final_context), inst)))"

text \<open>
  \<open>continue_interview\<close> of \<open>api.py\<close> over the dictionary \<open>INTERVIEW_SESSIONS\<close>. The
  instance held by the dictionary is mutated in place by the turn; the model stores the
  updated instance under the same key.
\<close>

datatype http_error = HTTPException int string

record InterviewResponse =
  r_session_id :: string
  r_message :: string
  r_is_finished :: bool
  r_final_context :: "grading_context option"

definition session_not_found :: http_error where
  "session_not_found = HTTPException 404 ''Interview session not found or has expired.''"

definition continue_interview ::
  "turn_proc \<Rightarrow> real \<Rightarrow> (string \<rightharpoonup> InterviewerBot) \<Rightarrow> string \<Rightarrow> string
     \<Rightarrow> (http_error + InterviewResponse) \<times> (string \<rightharpoonup> InterviewerBot)" where
  "continue_interview turn now sessions session_id candidate_reply =
     (case sessions session_id of
        None \<Rightarrow> (Inl session_not_found, sessions)
      | Some interviewer_instance \<Rightarrow>
          (case chat_interview_logic turn now interviewer_instance candidate_reply of
             ((ai_response, finished, final_context), inst) \<Rightarrow>
               (Inr \<lparr> r_session_id = session_id, r_message = ai_response,
                      r_is_finished = finished, r_final_context = final_context \<rparr>,
                if finished then (sessions(session_id \<mapsto> inst))(session_id := None)
                else sessions(session_id \<mapsto> inst))))"

section \<open>Notions used to state the properties\<close>

text \<open>The session after lines 187 and 188 of \<open>process_turn\<close>: the reply is recorded.\<close>

definition with_reply :: "InterviewerBot \<Rightarrow> string \<Rightarrow> InterviewerBot" where
  "with_reply self candidate_reply =
     self\<lparr> transcript_history := transcript_history self @ [(T_human, candidate_reply)],
           memory := memory self @ [HumanMessage candidate_reply] \<rparr>"

text \<open>
  The pacing policy in the words of the specification: \<open>FIRST_TOPIC\<close> if no primary
  question has been asked, \<open>ASK_FOLLOW_UP\<close> if the elaboration count is below its
  maximum, \<open>PIVOT_NEW_TOPIC\<close> otherwise.
\<close>

definition pacing_policy :: "int \<Rightarrow> int \<Rightarrow> int \<Rightarrow> prompt" where
  "pacing_policy pqc ec max_elaborations =
     (if pqc = 0 then FIRST_TOPIC
      else if ec < max_elaborations then ASK_FOLLOW_UP (ec + 1)
      else PIVOT_NEW_TOPIC (pqc + 1))"

text \<open>The prompt of the first generation call of a turn, on each of its three paths.\<close>

definition turn_prompt :: "InterviewerBot \<Rightarrow> prompt" where
  "turn_prompt self =
     (if is_in_soft_close self then FINAL_SIGNAL_PROMPT
      else if primary_question_count self \<ge> MAX_PRIMARY_QUESTIONS then SOFT_CLOSE_PROMPT
      else pacing_policy (primary_question_count self) (elaboration_count self) MAX_ELABORATIONS)"

text \<open>The text generated by the first call of a turn.\<close>

definition generated_text :: "llm \<Rightarrow> InterviewerBot \<Rightarrow> string \<Rightarrow> string" where
  "generated_text llm self candidate_reply =
     invoke_llm_for_response llm (with_reply self candidate_reply) (turn_prompt self)"





definition fresh_session :: "string \<Rightarrow> string \<Rightarrow> string \<Rightarrow> string \<Rightarrow> InterviewerBot" where
  "fresh_session job_desc_str resume_content_str level name =
     snd (init_session (new_bot job_desc_str resume_content_str level name))"


text \<open>Collaborators for concrete runs: one that always answers \<open>s\<close>, one that always raises.\<close>

definition const_llm :: "string \<Rightarrow> llm" where
  "const_llm s msgs = Content s"

definition raising_llm :: "string \<Rightarrow> llm" where
  "raising_llm e msgs = Raises e"

text \<open>A turn procedure that raises \<open>e\<close> after the reply has been recorded.\<close>

definition failing_turn :: "string \<Rightarrow> turn_proc" where
  "failing_turn e self candidate_reply = (Inl e, with_reply self candidate_reply)"


section \<open>Frame facts of the helper methods\<close>

lemma hsa_frame:
  "primary_question_count (snd (handle_sentinel_or_append b t)) = primary_question_count b"
  "elaboration_count (snd (handle_sentinel_or_append b t)) = elaboration_count b"
  "warning_count (snd (handle_sentinel_or_append b t)) = warning_count b"
  "is_in_soft_close (snd (handle_sentinel_or_append b t)) = is_in_soft_close b"
  by (simp_all add: handle_sentinel_or_append_def Let_def)

lemma hpr_frame:
  "primary_question_count (snd (handle_protocol_response llm b t)) = primary_question_count b"
  "elaboration_count (snd (handle_protocol_response llm b t)) = elaboration_count b"
  "is_in_soft_close (snd (handle_protocol_response llm b t)) = is_in_soft_close b"
  by (simp_all add: handle_protocol_response_def hsa_frame Let_def)

lemma with_reply_simps:
  "primary_question_count (with_reply b r) = primary_question_count b"
  "elaboration_count (with_reply b r) = elaboration_count b"
  "warning_count (with_reply b r) = warning_count b"
  "is_in_soft_close (with_reply b r) = is_in_soft_close b"
  "is_finished (with_reply b r) = is_finished b"
  "transcript_history (with_reply b r) = transcript_history b @ [(T_human, r)]"
  "memory (with_reply b r) = memory b @ [HumanMessage r]"
  "job_description (with_reply b r) = job_description b"
  "resume_content (with_reply b r) = resume_content b"
  "job_level (with_reply b r) = job_level b"
  by (simp_all add: with_reply_def)

text \<open>\<open>process_turn\<close> with the recorded reply and the first generated text named.\<close>

lemma process_turn_unfold:
  "process_turn llm b r =
     (if is_in_soft_close b then continue_soft_close llm (with_reply b r) r
      else if primary_question_count b \<ge> MAX_PRIMARY_QUESTIONS then initiate_soft_close llm (with_reply b r)
      else
        (let res = handle_protocol_response llm (with_reply b r) (generated_text llm b r);
             t = fst res; b2 = snd res
         in if is_finished b2 then ((t, True), b2)
            else if is_repetition t then ((t, False), b2)
            else if primary_question_count b = 0 then ((t, False), b2\<lparr> primary_question_count := 1 \<rparr>)
            else if elaboration_count b \<ge> MAX_ELABORATIONS then
              ((t, False), b2\<lparr> primary_question_count := primary_question_count b + 1,
                               elaboration_count := 0,
                               transcript_history := transcript_history b2 @ [(T_PROTOCOL, PIVOT_TAG)] \<rparr>)
            else ((t, False), b2\<lparr> elaboration_count := elaboration_count b + 1 \<rparr>)))"
proof -
  have eq: "self\<lparr> transcript_history := transcript_history self @ [(T_human, r)],
                   memory := memory self @ [HumanMessage r] \<rparr> = with_reply self r" for self
    by (simp add: with_reply_def)
  show ?thesis
    unfolding process_turn_def eq
    by (simp add: generated_text_def turn_prompt_def pacing_policy_def Let_def split_beta
          hpr_frame with_reply_simps)
qed

lemma hsa_transcript:
  "\<exists>rest. transcript_history (snd (handle_sentinel_or_append b t)) = transcript_history b @ rest
          \<and> T_human \<notin> fst ` set rest"
  by (simp add: handle_sentinel_or_append_def Let_def)

lemma hpr_transcript:
  "\<exists>rest. transcript_history (snd (handle_protocol_response llm b t)) = transcript_history b @ rest
          \<and> T_human \<notin> fst ` set rest"
proof (cases "t = WARNING_TAG \<and> \<not> warning_count b + 1 > MAX_WARNINGS")
  case True
  let ?b2 = "b\<lparr> warning_count := warning_count b + 1,
                 transcript_history := (transcript_history b @ [(T_PROTOCOL, WARNING_TAG)]) @ [(T_ai, warning_message)],
                 memory := memory b @ [AIMessage warning_message] \<rparr>"
  obtain rest where "transcript_history (snd (handle_sentinel_or_append ?b2
        (invoke_llm_for_response llm ?b2 RE_ASK))) = transcript_history ?b2 @ rest"
     "T_human \<notin> fst ` set rest"
    using hsa_transcript by blast
  then have "transcript_history (snd (handle_protocol_response llm b t))
       = transcript_history b @ ((T_PROTOCOL, WARNING_TAG) # (T_ai, warning_message) # rest)
       \<and> T_human \<notin> fst ` set ((T_PROTOCOL, WARNING_TAG) # (T_ai, warning_message) # rest)"
    using True by (simp add: handle_protocol_response_def Let_def)
  then show ?thesis by blast
next
  case False
  then show ?thesis
    using hsa_transcript[of b t]
    by (auto simp add: handle_protocol_response_def Let_def)
qed

text \<open>The definitions that a concrete turn unfolds to.\<close>

lemmas turn_eval =
  process_turn_def continue_soft_close_def initiate_soft_close_def
  handle_protocol_response_def handle_sentinel_or_append_def invoke_llm_for_response_def
  is_repetition_def REPETITION_PHRASES_def startswith_def py_strip_def py_isspace_def
  llm_error_message_def const_llm_def raising_llm_def new_bot_def
  SENTINEL_END_PHRASE_def WARNING_TAG_def MAX_WARNINGS_def MAX_PRIMARY_QUESTIONS_def
  MAX_ELABORATIONS_def Let_def

section \<open>Pacing\<close>

text \<open>
  Claim C4. On a turn that is neither in soft close nor overridden by the cap on primary
  questions, the prompt of the generation call is the one the pacing policy selects from
  the counters before the turn: \<open>FIRST_TOPIC\<close> when no primary question has been asked,
  \<open>ASK_FOLLOW_UP\<close> when the elaboration count is below its maximum, \<open>PIVOT_NEW_TOPIC\<close>
  otherwise. When the session did not finish and the reply is not a clarification reply,
  \<open>FIRST_TOPIC\<close> sets the primary question count to 1, \<open>PIVOT_NEW_TOPIC\<close> increments it
  and resets the elaboration count to 0, and otherwise the elaboration count is
  incremented; in the two other cases the counters are those the protocol handler left.
\<close>

theorem pacing_guide_and_counter_update:
  assumes "\<not> is_in_soft_close b" and "primary_question_count b < MAX_PRIMARY_QUESTIONS"
  shows "process_turn llm b r =
    (let g = pacing_policy (primary_question_count b) (elaboration_count b) MAX_ELABORATIONS;
         res = handle_protocol_response llm (with_reply b r)
                 (invoke_llm_for_response llm (with_reply b r) g);
         t = fst res; b2 = snd res
     in if is_finished b2 \<or> is_repetition t then ((t, is_finished b2), b2)
        else ((t, False),
              (case g of
                 FIRST_TOPIC \<Rightarrow> b2\<lparr> primary_question_count := 1 \<rparr>
               | PIVOT_NEW_TOPIC n \<Rightarrow>
                   b2\<lparr> primary_question_count := primary_question_count b + 1,
                       elaboration_count := 0,
                       transcript_history := transcript_history b2 @ [(T_PROTOCOL, PIVOT_TAG)] \<rparr>
               | _ \<Rightarrow> b2\<lparr> elaboration_count := elaboration_count b + 1 \<rparr>)))"
  using assms
  by (simp add: process_turn_unfold generated_text_def turn_prompt_def pacing_policy_def Let_def)

theorem pacing_guide_and_counter_update_witness:
  "\<not> is_in_soft_close ((new_bot [] [] [] []) \<lparr> primary_question_count := 2, elaboration_count := 1 \<rparr>)
   \<and> primary_question_count ((new_bot [] [] [] []) \<lparr> primary_question_count := 2, elaboration_count := 1 \<rparr>)
       < MAX_PRIMARY_QUESTIONS
   \<and> pacing_policy 2 1 MAX_ELABORATIONS = PIVOT_NEW_TOPIC 3
   \<and> primary_question_count (snd (process_turn (const_llm ''Next topic?'')
        ((new_bot [] [] [] []) \<lparr> primary_question_count := 2, elaboration_count := 1 \<rparr>) ''ok'')) = 3
   \<and> elaboration_count (snd (process_turn (const_llm ''Next topic?'')
        ((new_bot [] [] [] []) \<lparr> primary_question_count := 2, elaboration_count := 1 \<rparr>) ''ok'')) = 0"
proof -
  let ?b = "(new_bot [] [] [] []) \<lparr> primary_question_count := 2, elaboration_count := 1 \<rparr>"
  have h1: "\<not> is_in_soft_close ?b" by (simp add: new_bot_def)
  have h2: "primary_question_count ?b < MAX_PRIMARY_QUESTIONS"
    by (simp add: new_bot_def MAX_PRIMARY_QUESTIONS_def)
  have g: "pacing_policy 2 1 MAX_ELABORATIONS = PIVOT_NEW_TOPIC 3"
    by (simp add: pacing_policy_def MAX_ELABORATIONS_def)
  have gb: "pacing_policy (primary_question_count ?b) (elaboration_count ?b) MAX_ELABORATIONS
              = PIVOT_NEW_TOPIC 3"
    by (simp add: pacing_policy_def MAX_ELABORATIONS_def new_bot_def)
  have t: "handle_protocol_response (const_llm ''Next topic?'') (with_reply ?b ''ok'')
             (invoke_llm_for_response (const_llm ''Next topic?'') (with_reply ?b ''ok'') (PIVOT_NEW_TOPIC 3))
           = (''Next topic?'',
              (with_reply ?b ''ok'')\<lparr> transcript_history :=
                    transcript_history (with_reply ?b ''ok'') @ [(T_ai, ''Next topic?'')],
                 memory := memory (with_reply ?b ''ok'') @ [AIMessage ''Next topic?''] \<rparr>)"
    by (simp add: turn_eval)
  have "process_turn (const_llm ''Next topic?'') ?b ''ok'' =
          ((''Next topic?'', False),
           (with_reply ?b ''ok'')\<lparr> transcript_history :=
                    transcript_history (with_reply ?b ''ok'') @ [(T_ai, ''Next topic?'')],
                 memory := memory (with_reply ?b ''ok'') @ [AIMessage ''Next topic?''],
                 primary_question_count := primary_question_count ?b + 1,
                 elaboration_count := 0,
                 transcript_history := (transcript_history (with_reply ?b ''ok'') @ [(T_ai, ''Next topic?'')])
                     @ [(T_PROTOCOL, PIVOT_TAG)] \<rparr>)"
    unfolding pacing_guide_and_counter_update [OF h1 h2] gb Let_def t
    by (simp add: turn_eval with_reply_def)
  then show ?thesis using h1 h2 g by (simp add: new_bot_def)
qed

text \<open>
  Claim C5. On every turn whose returned reply starts with one of the clarification
  preambles, the primary question count and the elaboration count after the turn are those
  before it.
\<close>

theorem clarification_keeps_counters:
  "is_repetition (fst (fst (process_turn llm b r))) \<Longrightarrow>
     primary_question_count (snd (process_turn llm b r)) = primary_question_count b
     \<and> elaboration_count (snd (process_turn llm b r)) = elaboration_count b"
  by (simp add: process_turn_unfold continue_soft_close_def initiate_soft_close_def Let_def
        hpr_frame with_reply_simps split: if_splits)

theorem clarification_keeps_counters_witness:
  "is_repetition (fst (fst (process_turn (const_llm ''Let me clarify that point for you: why?'')
       ((new_bot [] [] [] []) \<lparr> primary_question_count := 1 \<rparr>) ''pardon?'')))
   \<and> primary_question_count (snd (process_turn (const_llm ''Let me clarify that point for you: why?'')
       ((new_bot [] [] [] []) \<lparr> primary_question_count := 1 \<rparr>) ''pardon?'')) = 1
   \<and> elaboration_count (snd (process_turn (const_llm ''Let me clarify that point for you: why?'')
       ((new_bot [] [] [] []) \<lparr> primary_question_count := 1 \<rparr>) ''pardon?'')) = 0"
proof -
  let ?b = "(new_bot [] [] [] []) \<lparr> primary_question_count := 1 \<rparr>"
  let ?llm = "const_llm ''Let me clarify that point for you: why?''"
  have h: "is_repetition (fst (fst (process_turn ?llm ?b ''pardon?'')))"
    by (simp add: turn_eval)
  from clarification_keeps_counters [OF h] h show ?thesis
    by (simp add: new_bot_def)
qed

section \<open>The transcript\<close>

text \<open>
  Claim C7. On every path of a turn, the transcript after the turn is the transcript before
  it, unchanged and in the same order, followed by the candidate's reply as a \<open>human\<close>
  entry, followed by the entries of the exchange, none of which is a \<open>human\<close> entry.
\<close>

theorem human_entry_first_append_only:
  "\<exists>rest. transcript_history (snd (process_turn llm b r))
            = transcript_history b @ (T_human, r) # rest
          \<and> T_human \<notin> fst ` set rest"
proof -
  obtain rest where rest:
    "transcript_history (snd (handle_protocol_response llm (with_reply b r) (generated_text llm b r)))
       = transcript_history (with_reply b r) @ rest" "T_human \<notin> fst ` set rest"
    using hpr_transcript by blast
  show ?thesis
  proof (cases "is_in_soft_close b \<or> primary_question_count b \<ge> MAX_PRIMARY_QUESTIONS")
    case True
    then show ?thesis
      by (auto simp add: process_turn_unfold continue_soft_close_def initiate_soft_close_def
            Let_def with_reply_simps)
  next
    case False
    have "transcript_history (snd (process_turn llm b r)) = transcript_history b @ (T_human, r) # rest
        \<or> transcript_history (snd (process_turn llm b r))
             = transcript_history b @ (T_human, r) # (rest @ [(T_PROTOCOL, PIVOT_TAG)])"
      using False rest(1) by (simp add: process_turn_unfold Let_def with_reply_simps)
    then show ?thesis
    proof
      assume "transcript_history (snd (process_turn llm b r)) = transcript_history b @ (T_human, r) # rest"
      with rest(2) show ?thesis by blast
    next
      assume a: "transcript_history (snd (process_turn llm b r))
             = transcript_history b @ (T_human, r) # (rest @ [(T_PROTOCOL, PIVOT_TAG)])"
      have "T_human \<notin> fst ` set (rest @ [(T_PROTOCOL, PIVOT_TAG)])" using rest(2) by simp
      with a show ?thesis by blast
    qed
  qed
qed

section \<open>The adapter \<open>chat_interview_logic\<close>\<close>



section \<open>The transcript assembler\<close>

text \<open>
  Claim C9, as stated, fails: \<open>get_context_for_grading\<close> has no check of \<open>is_finished\<close>.
  On a fresh session, which is not finished, it returns the context whose transcript is
  the greeting alone; and \<open>chat_interview_logic\<close> itself calls it on a session that is
  not finished when the turn procedure raises.
\<close>

theorem grading_context_unguarded_counterexample:
  "\<not> is_finished (fresh_session [] [] [] ''Ann'')
   \<and> ctx_transcript (get_context_for_grading 0 (fresh_session [] [] [] ''Ann''))
       = [(T_ai, initial_greeting ''Ann'')]
   \<and> \<not> is_finished (snd (chat_interview_logic (failing_turn ''boom'') 0 (fresh_session [] [] [] ''Ann'') ''hi''))
   \<and> snd (snd (fst (chat_interview_logic (failing_turn ''boom'') 0 (fresh_session [] [] [] ''Ann'') ''hi'')))
       = Some (get_context_for_grading 0 (with_reply (fresh_session [] [] [] ''Ann'') ''hi''))"
  by (simp add: fresh_session_def init_session_def new_bot_def get_context_for_grading_def
        chat_interview_logic_def failing_turn_def with_reply_def Let_def)

text \<open>
  Claim C9, amended. \<open>get_context_for_grading\<close> returns the projection of the session it
  is given, with the transcript as it stands. Its caller \<open>chat_interview_logic\<close> calls it
  exactly when the finished flag of the turn is true, on the session as the turn left it,
  and returns \<open>None\<close> as the context otherwise.
\<close>

theorem grading_context_only_with_finished_flag:
  assumes "chat_interview_logic turn now b r = ((ai_response, finished, final_context), b')"
  shows "final_context = (if finished then Some (get_context_for_grading now b') else None)
         \<and> b' = snd (turn b r)
         \<and> ctx_transcript (get_context_for_grading now b') = transcript_history b'"
  using assms
  by (auto simp add: chat_interview_logic_def get_context_for_grading_def Let_def
        split: prod.splits sum.splits)

theorem grading_context_only_with_finished_flag_witness:
  "snd (snd (fst (chat_interview_logic (process_turn_proc (const_llm ''Q1?'')) 0 (new_bot [] [] [] []) ''hi''))) = None"
proof -
  let ?res = "chat_interview_logic (process_turn_proc (const_llm ''Q1?'')) 0 (new_bot [] [] [] []) ''hi''"
  have f: "\<not> fst (snd (fst ?res))"
    by (simp add: chat_interview_logic_def process_turn_proc_def turn_eval split_beta)
  have h: "?res = ((fst (fst ?res), fst (snd (fst ?res)), snd (snd (fst ?res))), snd ?res)"
    by simp
  from grading_context_only_with_finished_flag [OF h] f show ?thesis by simp
qed

section \<open>Finished sessions\<close>

lemma flag_is_session_flag:
  "\<not> is_finished b \<Longrightarrow> is_finished (snd (process_turn llm b r)) = snd (fst (process_turn llm b r))"
  by (simp add: process_turn_unfold continue_soft_close_def initiate_soft_close_def Let_def
        with_reply_simps)

text \<open>
  Claim C8, as stated, fails: \<open>process_turn\<close> does not look at \<open>is_finished\<close> before it
  works. On a finished session with an empty transcript it records the reply and the
  generated text.
\<close>

theorem finished_turn_counterexample:
  "is_finished ((new_bot [] [] [] []) \<lparr> is_finished := True \<rparr>)
   \<and> transcript_history ((new_bot [] [] [] []) \<lparr> is_finished := True \<rparr>) = []
   \<and> transcript_history (snd (process_turn (const_llm ''Q1?'')
        ((new_bot [] [] [] []) \<lparr> is_finished := True \<rparr>) ''hello''))
       = [(T_human, ''hello''), (T_ai, ''Q1?'')]"
  by (simp add: turn_eval)

text \<open>
  Claim C8, amended. The session transport keeps finished sessions out of the live set:
  when every live session is unfinished before a chat call, every live session is
  unfinished after it; a call that returns \<open>is_finished\<close> true has deleted the session;
  and a call for an id that is not live is rejected with the 404 error and changes
  nothing.
\<close>

theorem live_sessions_are_open:
  assumes "\<forall>s b. sessions s = Some b \<longrightarrow> \<not> is_finished b"
      and "continue_interview (process_turn_proc llm) now sessions sid reply = (res, sessions')"
  shows "(\<forall>s b. sessions' s = Some b \<longrightarrow> \<not> is_finished b)
         \<and> (sessions sid = None \<longrightarrow> res = Inl session_not_found \<and> sessions' = sessions)
         \<and> (\<forall>resp. res = Inr resp \<and> r_is_finished resp \<longrightarrow> sessions' sid = None)"
proof (cases "sessions sid")
  case None
  then show ?thesis using assms by (simp add: continue_interview_def)
next
  case (Some b)
  then have o: "\<not> is_finished b" using assms(1) by blast
  let ?p = "process_turn llm b reply"
  have ci: "continue_interview (process_turn_proc llm) now sessions sid reply =
     (Inr \<lparr> r_session_id = sid, r_message = fst (fst ?p), r_is_finished = snd (fst ?p),
            r_final_context = (if snd (fst ?p) then Some (get_context_for_grading now (snd ?p)) else None) \<rparr>,
      if snd (fst ?p) then (sessions(sid \<mapsto> snd ?p))(sid := None) else sessions(sid \<mapsto> snd ?p))"
    using Some
    by (simp add: continue_interview_def chat_interview_logic_def process_turn_proc_def
          Let_def split_beta)
  show ?thesis
    using assms ci flag_is_session_flag[OF o, of llm reply] Some
    by (auto split: if_splits)
qed

theorem live_sessions_are_open_witness:
  "snd (continue_interview (process_turn_proc (const_llm ''Bye <<END_INTERVIEW>>'')) 0
        (Map.empty(''s1'' \<mapsto> (new_bot [] [] [] []) \<lparr> is_in_soft_close := True \<rparr>)) ''s1'' ''thanks'') ''s1''
     = None
   \<and> continue_interview (process_turn_proc (const_llm ''Bye <<END_INTERVIEW>>'')) 0
        Map.empty ''s1'' ''thanks'' = (Inl session_not_found, Map.empty)"
proof -
  let ?S = "Map.empty(''s1'' \<mapsto> (new_bot [] [] [] []) \<lparr> is_in_soft_close := True \<rparr>)"
  let ?L = "const_llm ''Bye <<END_INTERVIEW>>''"
  let ?c = "continue_interview (process_turn_proc ?L) 0 ?S ''s1'' ''thanks''"
  have h1: "\<forall>s b. ?S s = Some b \<longrightarrow> \<not> is_finished b"
    by (simp add: new_bot_def)
  have h2: "?c = (fst ?c, snd ?c)" by simp
  have fin: "\<exists>resp. fst ?c = Inr resp \<and> r_is_finished resp"
    by (simp add: continue_interview_def chat_interview_logic_def process_turn_proc_def
          turn_eval split_beta)
  have e1: "\<forall>s b. Map.empty s = Some (b::InterviewerBot) \<longrightarrow> \<not> is_finished b" by simp
  let ?d = "continue_interview (process_turn_proc ?L) 0 Map.empty ''s1'' ''thanks''"
  have e2: "?d = (fst ?d, snd ?d)" by simp
  from live_sessions_are_open [OF h1 h2] fin live_sessions_are_open [OF e1 e2]
  show ?thesis by (metis prod.collapse)
qed

section \<open>Bounds of the counters\<close>











section \<open>Errors of the Text Generation collaborator\<close>




lemma invoke_raises:
  assumes "llm (SystemMessage (job_description b) (resume_content b) (job_level b)
                 # memory b @ [HumanMessage r, HumanPrompt p]) = Raises e"
  shows "invoke_llm_for_response llm (with_reply b r) p = llm_error_message e"
  using assms by (simp add: invoke_llm_for_response_def with_reply_simps)




section \<open>Misconduct escalation\<close>








section \<open>The sentinel phrase\<close>















end
